theory Spec2Isabelle
  imports Main "HOL-Library.Word" "HOL-Library.Sublist"
begin

section \<open>The exchange harness of TestSamples/export_x.c\<close>

text \<open>
  The repository's source is one C function,
  \<^verbatim>\<open>
  void main() {
      int8_t x = 42;
      polyglot_export("x", x);
      void* evaluated = polyglot_eval_file("llvm", "hello.ll");

      int8_t y = polyglot_as_i8(evaluated);
  }
  \<close>
  which calls three functions of an embedding runtime. The runtime is not part of the
  repository: the harness is modelled over an arbitrary runtime, given as a parameter.
\<close>

subsection \<open>Data\<close>

text \<open>C's \<^verbatim>\<open>int8_t\<close>: eight bits, read as two's complement by \<open>sint\<close>.\<close>

type_synonym int8_t = "8 word"

text \<open>
  Modelled from the spec: the declarations of \<^verbatim>\<open>polyglot_export\<close>,
  \<^verbatim>\<open>polyglot_eval_file\<close> and \<^verbatim>\<open>polyglot_as_i8\<close> come from the header
  \<^verbatim>\<open>graalvm/llvm/polyglot.h\<close>, which is not among the sources. Their signatures are
  the spec's external interfaces: the export call takes a name and an 8-bit signed
  integer and returns nothing, the evaluate call takes a dialect tag and a file path and
  returns an opaque handle, the coercion call takes an opaque handle and returns an 8-bit
  signed integer.

  What the three functions do is left open. The runtime's state is a type \<open>'rt\<close>,
  threaded through the calls (the export namespace is process-wide state of the runtime);
  an opaque handle is a type \<open>'h\<close>; a call either returns (\<open>Inr\<close>, with the state
  it leaves) or fails with a fault \<open>'e\<close> that ends the process (\<open>Inl\<close>).
\<close>

record ('rt, 'h, 'e) polyglot =
  polyglot_export :: "string \<Rightarrow> int8_t \<Rightarrow> 'rt \<Rightarrow> 'e + 'rt"
  polyglot_eval_file :: "string \<Rightarrow> string \<Rightarrow> 'rt \<Rightarrow> 'e + 'h \<times> 'rt"
  polyglot_as_i8 :: "'h \<Rightarrow> 'rt \<Rightarrow> 'e + int8_t \<times> 'rt"

text \<open>The three local variables of \<^verbatim>\<open>main\<close>, as they stand at its closing brace.\<close>

record 'h locals =
  local_x :: int8_t
  local_evaluated :: 'h
  local_y :: int8_t

subsection \<open>The harness\<close>

text \<open>
  \<^verbatim>\<open>main\<close>, statement by statement. C has no handler for a fault of a callee: the
  first call that faults ends the run with that fault. A run that reaches the closing
  brace yields the locals and the state the runtime is left in.
\<close>

definition main :: "('rt, 'h, 'e) polyglot \<Rightarrow> 'rt \<Rightarrow> 'e + 'h locals \<times> 'rt" where
  "main api rt =
     (let x = 42 in
      case polyglot_export api ''x'' x rt of
        Inl e \<Rightarrow> Inl e
      | Inr rt1 \<Rightarrow>
          (case polyglot_eval_file api ''llvm'' ''hello.ll'' rt1 of
             Inl e \<Rightarrow> Inl e
           | Inr (evaluated, rt2) \<Rightarrow>
               (case polyglot_as_i8 api evaluated rt2 of
                  Inl e \<Rightarrow> Inl e
                | Inr (y, rt3) \<Rightarrow>
                    Inr (\<lparr>local_x = x, local_evaluated = evaluated, local_y = y\<rparr>, rt3))))"

text \<open>
  \<^verbatim>\<open>main\<close> returns \<^verbatim>\<open>void\<close> and its locals die at the closing brace: what a run
  leaves behind is the fault that ended it, or the runtime's final state.
\<close>

definition main_effect :: "('rt, 'h, 'e) polyglot \<Rightarrow> 'rt \<Rightarrow> 'e + 'rt" where
  "main_effect api rt = (case main api rt of Inl e \<Rightarrow> Inl e | Inr (l, rt') \<Rightarrow> Inr rt')"

subsection \<open>The calls a run issues\<close>

text \<open>One call of the embedding API, with its arguments.\<close>

datatype 'h call =
  Export string int8_t
| EvalFile string string
| AsI8 'h


text \<open>
  One step of a run: the call issued, and the state the runtime returned in (\<open>None\<close>
  when the call faulted).
\<close>

type_synonym ('h, 'rt) step = "'h call \<times> 'rt option"

text \<open>
  Any runtime can be wrapped so that it logs each call and otherwise behaves as before;
  the log survives a fault. Running \<^verbatim>\<open>main\<close> against the wrapped runtime yields
  the history of the run: the calls the harness issues, in order, and the states the
  runtime passes through.
\<close>

definition traced ::
  "('rt, 'h, 'e) polyglot \<Rightarrow> ('rt \<times> ('h, 'rt) step list, 'h, 'e \<times> ('h, 'rt) step list) polyglot" where
  "traced api =
     \<lparr>polyglot_export = (\<lambda>n v (rt, log).
         case polyglot_export api n v rt of
           Inl e \<Rightarrow> Inl (e, log @ [(Export n v, None)])
         | Inr rt' \<Rightarrow> Inr (rt', log @ [(Export n v, Some rt')])),
      polyglot_eval_file = (\<lambda>d p (rt, log).
         case polyglot_eval_file api d p rt of
           Inl e \<Rightarrow> Inl (e, log @ [(EvalFile d p, None)])
         | Inr (h, rt') \<Rightarrow> Inr (h, (rt', log @ [(EvalFile d p, Some rt')]))),
      polyglot_as_i8 = (\<lambda>h (rt, log).
         case polyglot_as_i8 api h rt of
           Inl e \<Rightarrow> Inl (e, log @ [(AsI8 h, None)])
         | Inr (v, rt') \<Rightarrow> Inr (v, (rt', log @ [(AsI8 h, Some rt')])))\<rparr>"

definition history :: "('rt, 'h, 'e) polyglot \<Rightarrow> 'rt \<Rightarrow> ('h, 'rt) step list" where
  "history api rt =
     (case main (traced api) (rt, []) of
        Inl (e, log) \<Rightarrow> log
      | Inr (l, (rt', log)) \<Rightarrow> log)"

definition calls :: "('rt, 'h, 'e) polyglot \<Rightarrow> 'rt \<Rightarrow> 'h call list" where
  "calls api rt = map fst (history api rt)"


text \<open>
  The evaluated artifact returns the exported \<open>x\<close> unchanged: whatever value is exported
  under \<open>x\<close> from the state \<open>rt\<close>, evaluating \<^verbatim>\<open>hello.ll\<close> next and coercing its
  result gives that value back.
\<close>

definition returns_x_unchanged :: "('rt, 'h, 'e) polyglot \<Rightarrow> 'rt \<Rightarrow> bool" where
  "returns_x_unchanged api rt \<longleftrightarrow>
     (\<forall>v rt1 h rt2 w rt3.
        polyglot_export api ''x'' v rt = Inr rt1 \<longrightarrow>
        polyglot_eval_file api ''llvm'' ''hello.ll'' rt1 = Inr (h, rt2) \<longrightarrow>
        polyglot_as_i8 api h rt2 = Inr (w, rt3) \<longrightarrow> w = v)"



subsection \<open>A fake exchange context\<close>

text \<open>
  A test double in the sense of the design notes (an injected exchange context), on which
  concrete runs of the harness are exhibited. It stands for no particular runtime. Its
  faults are the four error kinds of the spec's taxonomy; its values are tagged (kind and
  payload); its state is a namespace and a table of artifacts, each of which either
  returns a fixed value or echoes an export.
\<close>

datatype fault =
  NamespaceCollisionError
| ArtifactResolutionError
| DialectEvaluationError
| RepresentationMismatchError

datatype payload = IntV int | TextV string

datatype artifact = Returns payload | Echoes string

record fake_rt =
  namespace :: "string \<rightharpoonup> int8_t"
  artifacts :: "string \<times> string \<rightharpoonup> artifact"

definition fake_export :: "string \<Rightarrow> int8_t \<Rightarrow> fake_rt \<Rightarrow> fault + fake_rt" where
  "fake_export n v s =
     (case namespace s n of
        Some w \<Rightarrow> Inl NamespaceCollisionError
      | None \<Rightarrow> Inr (s\<lparr>namespace := (namespace s)(n \<mapsto> v)\<rparr>))"

definition fake_eval_file :: "string \<Rightarrow> string \<Rightarrow> fake_rt \<Rightarrow> fault + payload \<times> fake_rt" where
  "fake_eval_file d p s =
     (case artifacts s (d, p) of
        None \<Rightarrow> Inl ArtifactResolutionError
      | Some (Returns r) \<Rightarrow> Inr (r, s)
      | Some (Echoes n) \<Rightarrow>
          (case namespace s n of
             None \<Rightarrow> Inl DialectEvaluationError
           | Some w \<Rightarrow> Inr (IntV (sint w), s)))"

definition fake_as_i8 :: "payload \<Rightarrow> fake_rt \<Rightarrow> fault + int8_t \<times> fake_rt" where
  "fake_as_i8 h s =
     (case h of
        IntV i \<Rightarrow>
          (if - 128 \<le> i \<and> i \<le> 127 then Inr (word_of_int i, s)
           else Inl RepresentationMismatchError)
      | TextV t \<Rightarrow> Inl RepresentationMismatchError)"

definition fake :: "(fake_rt, payload, fault) polyglot" where
  "fake =
     \<lparr>polyglot_export = fake_export,
      polyglot_eval_file = fake_eval_file,
      polyglot_as_i8 = fake_as_i8\<rparr>"

text \<open>A fresh process whose only artifact is \<^verbatim>\<open>hello.ll\<close>, behaving as \<open>a\<close>.\<close>

definition fresh :: "artifact \<Rightarrow> fake_rt" where
  "fresh a = \<lparr>namespace = Map.empty, artifacts = [(''llvm'', ''hello.ll'') \<mapsto> a]\<rparr>"



section \<open>Properties\<close>

subsection \<open>Auxiliary facts\<close>

text \<open>A run, split by the outcome of each call.\<close>

lemma main_export_fault:
  "polyglot_export api ''x'' 42 rt = Inl e \<Longrightarrow> main api rt = Inl e"
  by (simp add: main_def)

lemma main_eval_fault:
  "polyglot_export api ''x'' 42 rt = Inr rt1 \<Longrightarrow>
   polyglot_eval_file api ''llvm'' ''hello.ll'' rt1 = Inl e \<Longrightarrow> main api rt = Inl e"
  by (simp add: main_def)

lemma main_coerce_fault:
  "polyglot_export api ''x'' 42 rt = Inr rt1 \<Longrightarrow>
   polyglot_eval_file api ''llvm'' ''hello.ll'' rt1 = Inr (h, rt2) \<Longrightarrow>
   polyglot_as_i8 api h rt2 = Inl e \<Longrightarrow> main api rt = Inl e"
  by (simp add: main_def)

lemma main_returns:
  "polyglot_export api ''x'' 42 rt = Inr rt1 \<Longrightarrow>
   polyglot_eval_file api ''llvm'' ''hello.ll'' rt1 = Inr (h, rt2) \<Longrightarrow>
   polyglot_as_i8 api h rt2 = Inr (v, rt3) \<Longrightarrow>
   main api rt = Inr (\<lparr>local_x = 42, local_evaluated = h, local_y = v\<rparr>, rt3)"
  by (simp add: main_def)

text \<open>A run that reaches the closing brace went through three calls that returned.\<close>

lemma main_InrD:
  assumes "main api rt = Inr (l, rt3)"
  obtains rt1 rt2 where
    "polyglot_export api ''x'' 42 rt = Inr rt1"
    "polyglot_eval_file api ''llvm'' ''hello.ll'' rt1 = Inr (local_evaluated l, rt2)"
    "polyglot_as_i8 api (local_evaluated l) rt2 = Inr (local_y l, rt3)"
    "local_x l = 42"
  using assms
  by (auto simp: main_def split: sum.splits prod.splits)

text \<open>The history of a run, split the same way.\<close>

lemma history_export_fault:
  "polyglot_export api ''x'' 42 rt = Inl e \<Longrightarrow> history api rt = [(Export ''x'' 42, None)]"
  by (simp add: history_def main_def traced_def)

lemma history_eval_fault:
  "polyglot_export api ''x'' 42 rt = Inr rt1 \<Longrightarrow>
   polyglot_eval_file api ''llvm'' ''hello.ll'' rt1 = Inl e \<Longrightarrow>
   history api rt = [(Export ''x'' 42, Some rt1), (EvalFile ''llvm'' ''hello.ll'', None)]"
  by (simp add: history_def main_def traced_def)

lemma history_coerce_fault:
  "polyglot_export api ''x'' 42 rt = Inr rt1 \<Longrightarrow>
   polyglot_eval_file api ''llvm'' ''hello.ll'' rt1 = Inr (h, rt2) \<Longrightarrow>
   polyglot_as_i8 api h rt2 = Inl e \<Longrightarrow>
   history api rt =
     [(Export ''x'' 42, Some rt1), (EvalFile ''llvm'' ''hello.ll'', Some rt2), (AsI8 h, None)]"
  by (simp add: history_def main_def traced_def)

lemma history_returns:
  "polyglot_export api ''x'' 42 rt = Inr rt1 \<Longrightarrow>
   polyglot_eval_file api ''llvm'' ''hello.ll'' rt1 = Inr (h, rt2) \<Longrightarrow>
   polyglot_as_i8 api h rt2 = Inr (v, rt3) \<Longrightarrow>
   history api rt =
     [(Export ''x'' 42, Some rt1), (EvalFile ''llvm'' ''hello.ll'', Some rt2),
      (AsI8 h, Some rt3)]"
  by (simp add: history_def main_def traced_def)

lemma calls_export_fault:
  "polyglot_export api ''x'' 42 rt = Inl e \<Longrightarrow> calls api rt = [Export ''x'' 42]"
  by (simp add: calls_def history_export_fault)

lemma calls_eval_fault:
  "polyglot_export api ''x'' 42 rt = Inr rt1 \<Longrightarrow>
   polyglot_eval_file api ''llvm'' ''hello.ll'' rt1 = Inl e \<Longrightarrow>
   calls api rt = [Export ''x'' 42, EvalFile ''llvm'' ''hello.ll'']"
  by (simp add: calls_def history_eval_fault)

lemma calls_evaluated:
  "polyglot_export api ''x'' 42 rt = Inr rt1 \<Longrightarrow>
   polyglot_eval_file api ''llvm'' ''hello.ll'' rt1 = Inr (h, rt2) \<Longrightarrow>
   calls api rt = [Export ''x'' 42, EvalFile ''llvm'' ''hello.ll'', AsI8 h]"
  by (cases "polyglot_as_i8 api h rt2")
    (auto simp: calls_def history_coerce_fault history_returns)

text \<open>The calls of any run, by the outcome of the first two.\<close>

lemma calls_cases:
  "calls api rt =
     (case polyglot_export api ''x'' 42 rt of
        Inl e \<Rightarrow> [Export ''x'' 42]
      | Inr rt1 \<Rightarrow>
          (case polyglot_eval_file api ''llvm'' ''hello.ll'' rt1 of
             Inl e \<Rightarrow> [Export ''x'' 42, EvalFile ''llvm'' ''hello.ll'']
           | Inr (h, rt2) \<Rightarrow> [Export ''x'' 42, EvalFile ''llvm'' ''hello.ll'', AsI8 h]))"
  by (auto simp: calls_export_fault calls_eval_fault calls_evaluated
      split: sum.splits prod.splits)

lemma calls_of_main_Inr:
  "main api rt = Inr (l, rt') \<Longrightarrow>
   calls api rt = [Export ''x'' 42, EvalFile ''llvm'' ''hello.ll'', AsI8 (local_evaluated l)]"
  by (erule main_InrD) (rule calls_evaluated)

text \<open>Logging changes nothing else: the wrapped run is the run, with the log beside it.\<close>

lemma main_traced:
  "map_sum fst (map_prod id fst) (main (traced api) (rt, log)) = main api rt"
  by (auto simp: main_def traced_def split: sum.splits prod.splits)

text \<open>The effect of a run, split by the outcome of each call.\<close>

lemma main_effect_evaluated:
  "polyglot_export api ''x'' 42 rt = Inr rt1 \<Longrightarrow>
   polyglot_eval_file api ''llvm'' ''hello.ll'' rt1 = Inr (h, rt2) \<Longrightarrow>
   main_effect api rt = map_sum id snd (polyglot_as_i8 api h rt2)"
  by (cases "polyglot_as_i8 api h rt2")
    (auto simp: main_effect_def main_coerce_fault main_returns)

text \<open>Runs of the fake context.\<close>

lemma fake_simps:
  "polyglot_export fake = fake_export"
  "polyglot_eval_file fake = fake_eval_file"
  "polyglot_as_i8 fake = fake_as_i8"
  by (simp_all add: fake_def)

lemma fake_as_i8_sint: "fake_as_i8 (IntV (sint w)) s = Inr (w, s)"
proof -
  have "- 128 \<le> sint w" using sint_ge [of w] by simp
  moreover have "sint w \<le> 127" using sint_lt [of w] by simp
  ultimately show ?thesis by (simp add: fake_as_i8_def)
qed

lemma fake_echo_returns_x_unchanged: "returns_x_unchanged fake (fresh (Echoes ''x''))"
  by (auto simp: returns_x_unchanged_def fake_simps fake_export_def fake_eval_file_def
      fresh_def fake_as_i8_sint split: option.splits)

lemma fake_echo_run:
  "main fake (fresh (Echoes ''x'')) =
     Inr (\<lparr>local_x = 42, local_evaluated = IntV 42, local_y = 42\<rparr>,
          \<lparr>namespace = [''x'' \<mapsto> 42],
           artifacts = [(''llvm'', ''hello.ll'') \<mapsto> Echoes ''x'']\<rparr>)"
  by (simp add: main_def fake_simps fake_export_def fake_eval_file_def fake_as_i8_def
      fresh_def)




lemma fake_collision:
  "polyglot_export fake ''x'' 42 (fresh a\<lparr>namespace := [''x'' \<mapsto> 7]\<rparr>) =
     Inl NamespaceCollisionError"
  by (simp add: fake_simps fake_export_def)

lemma fake_unresolved:
  "polyglot_export fake ''x'' 42 \<lparr>namespace = Map.empty, artifacts = Map.empty\<rparr> =
     Inr \<lparr>namespace = [''x'' \<mapsto> 42], artifacts = Map.empty\<rparr> \<and>
   polyglot_eval_file fake ''llvm'' ''hello.ll''
       \<lparr>namespace = [''x'' \<mapsto> 42], artifacts = Map.empty\<rparr> =
     Inl ArtifactResolutionError"
  by (simp add: fake_simps fake_export_def fake_eval_file_def)

lemma fake_export_fresh:
  "polyglot_export fake ''x'' 42 (fresh a) =
     Inr \<lparr>namespace = [''x'' \<mapsto> 42], artifacts = [(''llvm'', ''hello.ll'') \<mapsto> a]\<rparr>"
  by (simp add: fake_simps fake_export_def fresh_def)

lemma fake_eval_dangling:
  "polyglot_eval_file fake ''llvm'' ''hello.ll''
       \<lparr>namespace = [''x'' \<mapsto> 42], artifacts = [(''llvm'', ''hello.ll'') \<mapsto> Echoes ''z'']\<rparr> =
     Inl DialectEvaluationError"
  by (simp add: fake_simps fake_eval_file_def)

lemma fake_eval_returns:
  "polyglot_eval_file fake ''llvm'' ''hello.ll''
       \<lparr>namespace = [''x'' \<mapsto> 42], artifacts = [(''llvm'', ''hello.ll'') \<mapsto> Returns r]\<rparr> =
     Inr (r, \<lparr>namespace = [''x'' \<mapsto> 42], artifacts = [(''llvm'', ''hello.ll'') \<mapsto> Returns r]\<rparr>)"
  by (simp add: fake_simps fake_eval_file_def)

lemma fake_mismatch:
  "polyglot_as_i8 fake (TextV t) s = Inl RepresentationMismatchError"
  "polyglot_as_i8 fake (IntV 300) s = Inl RepresentationMismatchError"
  by (simp_all add: fake_simps fake_as_i8_def)

subsection \<open>The end-to-end scenario\<close>

text \<open>
  C1. A run of \<^verbatim>\<open>main\<close> that reaches the closing brace has exported 42 under the name
  \<open>x\<close>, evaluated the artifact \<^verbatim>\<open>hello.ll\<close> under the dialect \<^verbatim>\<open>llvm\<close> in the
  state the export left, and coerced the handle this evaluation returned; \<open>y\<close> is the
  value the coercion returned. When the artifact returns the exported \<open>x\<close> unchanged,
  \<open>y\<close> is 42.
\<close>

theorem main_end_to_end:
  assumes run: "main api rt = Inr (l, rt')"
  shows "(\<exists>rt1 rt2.
            polyglot_export api ''x'' 42 rt = Inr rt1 \<and>
            polyglot_eval_file api ''llvm'' ''hello.ll'' rt1 = Inr (local_evaluated l, rt2) \<and>
            polyglot_as_i8 api (local_evaluated l) rt2 = Inr (local_y l, rt')) \<and>
         (returns_x_unchanged api rt \<longrightarrow> local_y l = 42 \<and> sint (local_y l) = 42)"
proof -
  from run obtain rt1 rt2 where
    ex: "polyglot_export api ''x'' 42 rt = Inr rt1" and
    ev: "polyglot_eval_file api ''llvm'' ''hello.ll'' rt1 = Inr (local_evaluated l, rt2)" and
    co: "polyglot_as_i8 api (local_evaluated l) rt2 = Inr (local_y l, rt')"
    by (rule main_InrD)
  have "local_y l = 42 \<and> sint (local_y l) = 42" if "returns_x_unchanged api rt"
  proof -
    from that ex ev co have "local_y l = 42"
      unfolding returns_x_unchanged_def by blast
    then show ?thesis by simp
  qed
  with ex ev co show ?thesis by blast
qed

theorem main_end_to_end_witness:
  "main fake (fresh (Echoes ''x'')) =
     Inr (\<lparr>local_x = 42, local_evaluated = IntV 42, local_y = 42\<rparr>,
          \<lparr>namespace = [''x'' \<mapsto> 42],
           artifacts = [(''llvm'', ''hello.ll'') \<mapsto> Echoes ''x'']\<rparr>) \<and>
   returns_x_unchanged fake (fresh (Echoes ''x'')) \<and>
   local_y \<lparr>local_x = 42, local_evaluated = IntV 42, local_y = 42\<rparr> = (42 :: int8_t) \<and>
   sint (42 :: int8_t) = 42"
  using main_end_to_end [OF fake_echo_run] fake_echo_run fake_echo_returns_x_unchanged
  by simp


subsection \<open>The order of the calls\<close>

text \<open>
  C2. The harness issues its calls in one fixed order, whatever the runtime answers:
  the export of 42 under \<open>x\<close> first, then, once the export has returned, the evaluation
  of \<^verbatim>\<open>hello.ll\<close>, then, once the evaluation has returned, the coercion of the handle
  it returned. No call is issued twice, none is skipped and none comes early: the calls
  of any run are a non-empty prefix of export, evaluation, coercion, cut only where a
  call faulted, and a run that reaches the closing brace has issued exactly the three.
\<close>

theorem main_strictly_linear:
  "calls api rt =
     (case polyglot_export api ''x'' 42 rt of
        Inl e \<Rightarrow> [Export ''x'' 42]
      | Inr rt1 \<Rightarrow>
          (case polyglot_eval_file api ''llvm'' ''hello.ll'' rt1 of
             Inl e \<Rightarrow> [Export ''x'' 42, EvalFile ''llvm'' ''hello.ll'']
           | Inr (h, rt2) \<Rightarrow> [Export ''x'' 42, EvalFile ''llvm'' ''hello.ll'', AsI8 h])) \<and>
   calls api rt \<noteq> [] \<and>
   (\<exists>h. prefix (calls api rt) [Export ''x'' 42, EvalFile ''llvm'' ''hello.ll'', AsI8 h]) \<and>
   (\<forall>l rt'. main api rt = Inr (l, rt') \<longrightarrow>
      calls api rt = [Export ''x'' 42, EvalFile ''llvm'' ''hello.ll'', AsI8 (local_evaluated l)])"
proof (intro conjI)
  show "calls api rt =
     (case polyglot_export api ''x'' 42 rt of
        Inl e \<Rightarrow> [Export ''x'' 42]
      | Inr rt1 \<Rightarrow>
          (case polyglot_eval_file api ''llvm'' ''hello.ll'' rt1 of
             Inl e \<Rightarrow> [Export ''x'' 42, EvalFile ''llvm'' ''hello.ll'']
           | Inr (h, rt2) \<Rightarrow> [Export ''x'' 42, EvalFile ''llvm'' ''hello.ll'', AsI8 h]))"
    by (rule calls_cases)
  show "calls api rt \<noteq> []"
    by (simp add: calls_cases split: sum.splits prod.splits)
  show "\<exists>h. prefix (calls api rt) [Export ''x'' 42, EvalFile ''llvm'' ''hello.ll'', AsI8 h]"
    by (auto simp: calls_cases split: sum.splits prod.splits)
  show "\<forall>l rt'. main api rt = Inr (l, rt') \<longrightarrow>
      calls api rt = [Export ''x'' 42, EvalFile ''llvm'' ''hello.ll'', AsI8 (local_evaluated l)]"
    by (blast intro: calls_of_main_Inr)
qed

theorem main_strictly_linear_witness:
  "calls fake (fresh (Echoes ''x'')) =
     [Export ''x'' 42, EvalFile ''llvm'' ''hello.ll'', AsI8 (IntV 42)]"
proof -
  have "\<forall>l rt'. main fake (fresh (Echoes ''x'')) = Inr (l, rt') \<longrightarrow>
      calls fake (fresh (Echoes ''x'')) =
        [Export ''x'' 42, EvalFile ''llvm'' ''hello.ll'', AsI8 (local_evaluated l)]"
    using main_strictly_linear [of fake "fresh (Echoes ''x'')"] by (elim conjE)
  with fake_echo_run show ?thesis by fastforce
qed

subsection \<open>One write to the namespace\<close>




subsection \<open>Faults\<close>

text \<open>
  C8. The harness catches nothing. A run ends with a fault exactly when one of its three
  calls faulted, with that very fault, whatever its kind, and no call follows the one
  that faulted. Nor is the evaluation result checked: whatever handle the evaluation
  returns is passed to the coercion, and the run ends as the coercion does.
\<close>

theorem faults_are_fatal:
  "(main api rt = Inl e \<longleftrightarrow>
      polyglot_export api ''x'' 42 rt = Inl e \<or>
      (\<exists>rt1. polyglot_export api ''x'' 42 rt = Inr rt1 \<and>
         polyglot_eval_file api ''llvm'' ''hello.ll'' rt1 = Inl e) \<or>
      (\<exists>rt1 h rt2. polyglot_export api ''x'' 42 rt = Inr rt1 \<and>
         polyglot_eval_file api ''llvm'' ''hello.ll'' rt1 = Inr (h, rt2) \<and>
         polyglot_as_i8 api h rt2 = Inl e)) \<and>
   (polyglot_export api ''x'' 42 rt = Inl e \<longrightarrow> calls api rt = [Export ''x'' 42]) \<and>
   (\<forall>rt1. polyglot_export api ''x'' 42 rt = Inr rt1 \<longrightarrow>
      polyglot_eval_file api ''llvm'' ''hello.ll'' rt1 = Inl e \<longrightarrow>
      calls api rt = [Export ''x'' 42, EvalFile ''llvm'' ''hello.ll'']) \<and>
   (\<forall>rt1 h rt2. polyglot_export api ''x'' 42 rt = Inr rt1 \<longrightarrow>
      polyglot_eval_file api ''llvm'' ''hello.ll'' rt1 = Inr (h, rt2) \<longrightarrow>
      calls api rt = [Export ''x'' 42, EvalFile ''llvm'' ''hello.ll'', AsI8 h] \<and>
      main_effect api rt = map_sum id snd (polyglot_as_i8 api h rt2))"
proof (intro conjI allI impI)
  show "main api rt = Inl e \<longleftrightarrow>
      polyglot_export api ''x'' 42 rt = Inl e \<or>
      (\<exists>rt1. polyglot_export api ''x'' 42 rt = Inr rt1 \<and>
         polyglot_eval_file api ''llvm'' ''hello.ll'' rt1 = Inl e) \<or>
      (\<exists>rt1 h rt2. polyglot_export api ''x'' 42 rt = Inr rt1 \<and>
         polyglot_eval_file api ''llvm'' ''hello.ll'' rt1 = Inr (h, rt2) \<and>
         polyglot_as_i8 api h rt2 = Inl e)"
    by (auto simp: main_def split: sum.splits prod.splits)
next
  assume "polyglot_export api ''x'' 42 rt = Inl e"
  then show "calls api rt = [Export ''x'' 42]"
    by (rule calls_export_fault)
next
  fix rt1
  assume "polyglot_export api ''x'' 42 rt = Inr rt1"
    and "polyglot_eval_file api ''llvm'' ''hello.ll'' rt1 = Inl e"
  then show "calls api rt = [Export ''x'' 42, EvalFile ''llvm'' ''hello.ll'']"
    by (rule calls_eval_fault)
next
  fix rt1 h rt2
  assume ex: "polyglot_export api ''x'' 42 rt = Inr rt1"
    and ev: "polyglot_eval_file api ''llvm'' ''hello.ll'' rt1 = Inr (h, rt2)"
  from ex ev show "calls api rt = [Export ''x'' 42, EvalFile ''llvm'' ''hello.ll'', AsI8 h]"
    by (rule calls_evaluated)
  from ex ev show "main_effect api rt = map_sum id snd (polyglot_as_i8 api h rt2)"
    by (rule main_effect_evaluated)
qed

theorem faults_are_fatal_witness:
  "main fake (fresh (Echoes ''x'')\<lparr>namespace := [''x'' \<mapsto> 7]\<rparr>) = Inl NamespaceCollisionError \<and>
   calls fake (fresh (Echoes ''x'')\<lparr>namespace := [''x'' \<mapsto> 7]\<rparr>) = [Export ''x'' 42] \<and>
   main fake \<lparr>namespace = Map.empty, artifacts = Map.empty\<rparr> = Inl ArtifactResolutionError \<and>
   calls fake \<lparr>namespace = Map.empty, artifacts = Map.empty\<rparr> =
     [Export ''x'' 42, EvalFile ''llvm'' ''hello.ll''] \<and>
   main fake (fresh (Echoes ''z'')) = Inl DialectEvaluationError \<and>
   main fake (fresh (Returns (TextV ''hi''))) = Inl RepresentationMismatchError \<and>
   main_effect fake (fresh (Returns (IntV 300))) = Inl RepresentationMismatchError \<and>
   calls fake (fresh (Returns (IntV 300))) =
     [Export ''x'' 42, EvalFile ''llvm'' ''hello.ll'', AsI8 (IntV 300)]"
proof -
  let ?c = "fresh (Echoes ''x'')\<lparr>namespace := [''x'' \<mapsto> 7]\<rparr>"
  let ?u = "\<lparr>namespace = Map.empty, artifacts = Map.empty\<rparr>"
  have "main fake ?c = Inl NamespaceCollisionError" "calls fake ?c = [Export ''x'' 42]"
    using faults_are_fatal [of fake ?c NamespaceCollisionError] fake_collision by blast+
  moreover have "main fake ?u = Inl ArtifactResolutionError"
    "calls fake ?u = [Export ''x'' 42, EvalFile ''llvm'' ''hello.ll'']"
    using faults_are_fatal [of fake ?u ArtifactResolutionError] fake_unresolved by blast+
  moreover have "main fake (fresh (Echoes ''z'')) = Inl DialectEvaluationError"
    using faults_are_fatal [of fake "fresh (Echoes ''z'')" DialectEvaluationError]
      fake_export_fresh [of "Echoes ''z''"] fake_eval_dangling by blast
  moreover have "main fake (fresh (Returns (TextV ''hi''))) = Inl RepresentationMismatchError"
    using faults_are_fatal [of fake "fresh (Returns (TextV ''hi''))" RepresentationMismatchError]
      fake_export_fresh [of "Returns (TextV ''hi'')"] fake_eval_returns [of "TextV ''hi''"]
      fake_mismatch(1) by blast
  moreover have
    "main_effect fake (fresh (Returns (IntV 300))) = Inl RepresentationMismatchError \<and>
     calls fake (fresh (Returns (IntV 300))) =
       [Export ''x'' 42, EvalFile ''llvm'' ''hello.ll'', AsI8 (IntV 300)]"
    using faults_are_fatal [of fake "fresh (Returns (IntV 300))" RepresentationMismatchError]
      fake_export_fresh [of "Returns (IntV 300)"] fake_eval_returns [of "IntV 300"]
    by (simp add: fake_mismatch)
  ultimately show ?thesis by blast
qed

subsection \<open>The coerced value is not used\<close>

text \<open>
  C10. Nothing depends on \<open>y\<close>. Two runtimes that differ only in the value their
  coercion returns (same export, same evaluation, same faults and same states after a
  coercion) see the same calls from the harness and are left in the same state, or with
  the same fault. The calls of a run are among the three of export, evaluation and
  coercion.
\<close>

theorem coerced_value_unused:
  assumes "polyglot_export api2 = polyglot_export api1"
    and "polyglot_eval_file api2 = polyglot_eval_file api1"
    and "\<And>h s. map_sum id snd (polyglot_as_i8 api2 h s) = map_sum id snd (polyglot_as_i8 api1 h s)"
  shows "main_effect api2 rt = main_effect api1 rt \<and>
         calls api2 rt = calls api1 rt \<and>
         (\<exists>h. set (calls api1 rt) \<subseteq>
            {Export ''x'' 42, EvalFile ''llvm'' ''hello.ll'', AsI8 h})"
proof (intro conjI)
  show "calls api2 rt = calls api1 rt"
    unfolding calls_cases assms(1,2) ..
  show "\<exists>h. set (calls api1 rt) \<subseteq> {Export ''x'' 42, EvalFile ''llvm'' ''hello.ll'', AsI8 h}"
    by (auto simp: calls_cases split: sum.splits prod.splits)
  show "main_effect api2 rt = main_effect api1 rt"
  proof (cases "polyglot_export api1 ''x'' 42 rt")
    case (Inl e)
    then have "main api1 rt = Inl e" and "main api2 rt = Inl e"
      by (simp_all add: main_export_fault assms(1))
    then show ?thesis by (simp add: main_effect_def)
  next
    case (Inr rt1)
    then have ex2: "polyglot_export api2 ''x'' 42 rt = Inr rt1"
      by (simp add: assms(1))
    show ?thesis
    proof (cases "polyglot_eval_file api1 ''llvm'' ''hello.ll'' rt1")
      case (Inl e)
      then have ev2: "polyglot_eval_file api2 ''llvm'' ''hello.ll'' rt1 = Inl e"
        by (simp add: assms(2))
      from Inr Inl have "main api1 rt = Inl e" by (rule main_eval_fault)
      moreover from ex2 ev2 have "main api2 rt = Inl e" by (rule main_eval_fault)
      ultimately show ?thesis by (simp add: main_effect_def)
    next
      case ev: (Inr r)
      obtain h rt2 where "r = (h, rt2)" by (cases r)
      with ev have ev1: "polyglot_eval_file api1 ''llvm'' ''hello.ll'' rt1 = Inr (h, rt2)"
        by simp
      then have ev2: "polyglot_eval_file api2 ''llvm'' ''hello.ll'' rt1 = Inr (h, rt2)"
        by (simp add: assms(2))
      from Inr ev1 have "main_effect api1 rt = map_sum id snd (polyglot_as_i8 api1 h rt2)"
        by (rule main_effect_evaluated)
      moreover from ex2 ev2
      have "main_effect api2 rt = map_sum id snd (polyglot_as_i8 api2 h rt2)"
        by (rule main_effect_evaluated)
      ultimately show ?thesis by (simp add: assms(3))
    qed
  qed
qed

theorem coerced_value_unused_witness:
  "main fake (fresh (Echoes ''x'')) =
     Inr (\<lparr>local_x = 42, local_evaluated = IntV 42, local_y = 42\<rparr>,
          \<lparr>namespace = [''x'' \<mapsto> 42],
           artifacts = [(''llvm'', ''hello.ll'') \<mapsto> Echoes ''x'']\<rparr>) \<and>
   main (fake\<lparr>polyglot_as_i8 := \<lambda>h s. map_sum id (map_prod (\<lambda>v. v + 1) id) (fake_as_i8 h s)\<rparr>)
       (fresh (Echoes ''x'')) =
     Inr (\<lparr>local_x = 42, local_evaluated = IntV 42, local_y = 43\<rparr>,
          \<lparr>namespace = [''x'' \<mapsto> 42],
           artifacts = [(''llvm'', ''hello.ll'') \<mapsto> Echoes ''x'']\<rparr>) \<and>
   main_effect
       (fake\<lparr>polyglot_as_i8 := \<lambda>h s. map_sum id (map_prod (\<lambda>v. v + 1) id) (fake_as_i8 h s)\<rparr>)
       (fresh (Echoes ''x'')) =
     main_effect fake (fresh (Echoes ''x'')) \<and>
   calls
       (fake\<lparr>polyglot_as_i8 := \<lambda>h s. map_sum id (map_prod (\<lambda>v. v + 1) id) (fake_as_i8 h s)\<rparr>)
       (fresh (Echoes ''x'')) =
     calls fake (fresh (Echoes ''x''))"
proof -
  let ?api2 = "fake\<lparr>polyglot_as_i8 := \<lambda>h s. map_sum id (map_prod (\<lambda>v. v + 1) id) (fake_as_i8 h s)\<rparr>"
  have co: "map_sum id snd (polyglot_as_i8 ?api2 h s) = map_sum id snd (polyglot_as_i8 fake h s)"
    for h s
    by (cases "fake_as_i8 h s") (auto simp: fake_simps)
  have run2: "main ?api2 (fresh (Echoes ''x'')) =
     Inr (\<lparr>local_x = 42, local_evaluated = IntV 42, local_y = 43\<rparr>,
          \<lparr>namespace = [''x'' \<mapsto> 42],
           artifacts = [(''llvm'', ''hello.ll'') \<mapsto> Echoes ''x'']\<rparr>)"
    by (simp add: main_def fake_simps fake_export_def fake_eval_file_def fake_as_i8_def
        fresh_def)
  have "main_effect ?api2 (fresh (Echoes ''x'')) = main_effect fake (fresh (Echoes ''x'')) \<and>
        calls ?api2 (fresh (Echoes ''x'')) = calls fake (fresh (Echoes ''x''))"
    using coerced_value_unused [of ?api2 fake, OF _ _ co, of "fresh (Echoes ''x'')"]
    by simp
  with fake_echo_run run2 show ?thesis by simp
qed

end
